theory Spec2Isabelle
  imports Complex_Main "HOL-Library.Word"
begin

section \<open>Will Writing Service API: plans, orders and the mock payment\<close>

text \<open>
  A shallow embedding of \<^verbatim>\<open>main.py\<close> and \<^verbatim>\<open>schemas.py\<close>. The document database is
  explicit state: a record of the two collections the handlers use, each a list of
  documents in insertion order. What a handler takes from its environment during one
  request (the readings of \<^verbatim>\<open>datetime.utcnow()\<close> and the identifiers the driver generates
  for inserted documents) is an argument. Every \<^verbatim>\<open>raise\<close> is a value of the type
  \<open>error\<close>, returned together with the database as the request left it.
\<close>

subsection \<open>Strings, numbers and identifiers\<close>

text \<open>
  Python's \<^verbatim>\<open>float\<close>. The handlers only copy prices (\<^verbatim>\<open>float(x)\<close> of a float is \<open>x\<close>),
  never compute with them.
\<close>

type_synonym pyfloat = real

text \<open>
  A naive \<^verbatim>\<open>datetime\<close>, as the number of microseconds that \<^verbatim>\<open>.timestamp()\<close> assigns to
  it; \<^verbatim>\<open>int(dt.timestamp())\<close> truncates the seconds towards zero.
\<close>

type_synonym datetime = int

definition int_timestamp :: "datetime \<Rightarrow> int" where
  "int_timestamp dt = (if dt < 0 then - ((- dt) div 1000000) else dt div 1000000)"

text \<open>
  The store holds a datetime as whole milliseconds: written and read back, a reading has
  lost what it had below the millisecond. (The count of a naive datetime under
  \<^verbatim>\<open>.timestamp()\<close> and its count as UTC, which the driver encodes, differ by whole
  seconds, so the truncation is the same on either.)
\<close>

definition bson_datetime :: "datetime \<Rightarrow> datetime" where
  "bson_datetime dt = (dt div 1000) * 1000"

text \<open>\<^verbatim>\<open>str(n)\<close> of an integer: decimal digits, with a minus sign when negative.\<close>

definition digit_char :: "nat \<Rightarrow> char" where
  "digit_char d = ''0123456789'' ! d"

fun str_nat :: "nat \<Rightarrow> string" where
  "str_nat n = (if n < 10 then [digit_char n] else str_nat (n div 10) @ [digit_char (n mod 10)])"

definition str_int :: "int \<Rightarrow> string" where
  "str_int i = (if i < 0 then CHR ''-'' # str_nat (nat (- i)) else str_nat (nat i))"

definition is_digit :: "char \<Rightarrow> bool" where
  "is_digit c = (c \<in> set ''0123456789'')"

text \<open>
  \<^verbatim>\<open>s.upper()\<close> on ASCII text, which is all that reaches it: \<^verbatim>\<open>pay_order\<close> upper-cases
  part of an identifier that \<^verbatim>\<open>ObjectId\<close> has accepted.
\<close>

definition upper_char :: "char \<Rightarrow> char" where
  "upper_char c =
     (case map_of (zip ''abcdefghijklmnopqrstuvwxyz'' ''ABCDEFGHIJKLMNOPQRSTUVWXYZ'') c of
        Some u \<Rightarrow> u
      | None \<Rightarrow> c)"

definition upper :: "string \<Rightarrow> string" where
  "upper s = map upper_char s"

text \<open>\<^verbatim>\<open>s[-6:]\<close>: the last six characters, or the whole string when it is shorter.\<close>

definition last6 :: "string \<Rightarrow> string" where
  "last6 s = drop (length s - 6) s"

text \<open>
  \<^verbatim>\<open>bson.ObjectId\<close>: an object that holds bytes. \<^verbatim>\<open>ObjectId(s)\<close> on a string raises
  \<^verbatim>\<open>InvalidId\<close> unless \<open>s\<close> has 24 characters and \<^verbatim>\<open>bytes.fromhex(s)\<close> accepts it, and
  then holds the bytes that gives. \<^verbatim>\<open>bytes.fromhex\<close> reads pairs of hexadecimal digits in
  either case and skips ASCII whitespace before a pair and at the end, so that 24
  characters give twelve bytes when all are digits and fewer when some are whitespace.
  \<^verbatim>\<open>str(oid)\<close> is two lower-case digits for each byte.
\<close>

type_synonym objectid = "8 word list"

definition hex_val :: "char \<Rightarrow> nat option" where
  "hex_val c =
     map_of
       [(CHR ''0'', 0), (CHR ''1'', 1), (CHR ''2'', 2), (CHR ''3'', 3), (CHR ''4'', 4),
        (CHR ''5'', 5), (CHR ''6'', 6), (CHR ''7'', 7), (CHR ''8'', 8), (CHR ''9'', 9),
        (CHR ''a'', 10), (CHR ''b'', 11), (CHR ''c'', 12), (CHR ''d'', 13), (CHR ''e'', 14),
        (CHR ''f'', 15),
        (CHR ''A'', 10), (CHR ''B'', 11), (CHR ''C'', 12), (CHR ''D'', 13), (CHR ''E'', 14),
        (CHR ''F'', 15)] c"

definition is_space :: "char \<Rightarrow> bool" where
  "is_space c = (c \<in> set [CHR 0x09, CHR 0x0A, CHR 0x0B, CHR 0x0C, CHR 0x0D, CHR 0x20])"

fun fromhex :: "string \<Rightarrow> objectid option" where
  "fromhex [] = Some []"
| "fromhex [c] = (if is_space c then Some [] else None)"
| "fromhex (c # c' # cs) =
     (if is_space c then fromhex (c' # cs)
      else (case (hex_val c, hex_val c') of
              (Some t, Some b) \<Rightarrow> map_option ((#) (word_of_nat (16 * t + b))) (fromhex cs)
            | _ \<Rightarrow> None))"

definition ObjectId :: "string \<Rightarrow> objectid option" where
  "ObjectId s = (if length s = 24 then fromhex s else None)"

definition hex_char :: "nat \<Rightarrow> char" where
  "hex_char d = ''0123456789abcdef'' ! d"

definition hex_byte :: "8 word \<Rightarrow> string" where
  "hex_byte b = [hex_char (unat b div 16), hex_char (unat b mod 16)]"

definition str_oid :: "objectid \<Rightarrow> string" where
  "str_oid k = concat (map hex_byte k)"

text \<open>
  The \<^verbatim>\<open>_id\<close> of a stored document is a BSON ObjectId, which is twelve bytes, and so is
  each identifier the driver generates; \<open>oid_bytes\<close> gives the bytes, the first the most
  significant.
\<close>

type_synonym stored_id = "96 word"

fun be_bytes :: "nat \<Rightarrow> nat \<Rightarrow> objectid" where
  "be_bytes 0 n = []"
| "be_bytes (Suc k) n = be_bytes k (n div 256) @ [word_of_nat (n mod 256)]"

definition oid_bytes :: "stored_id \<Rightarrow> objectid" where
  "oid_bytes w = be_bytes 12 (unat w)"

subsection \<open>Schemas and request bodies\<close>

text \<open>\<^verbatim>\<open>schemas.Plan\<close>.\<close>

record PlanSchema =
  name :: string
  description :: string
  price :: pyfloat
  features :: "string list"

text \<open>
  \<^verbatim>\<open>main.CreateOrderBody\<close>. The framework validates a request body before the handler
  runs, so \<open>email\<close> is the string of an accepted address. The field \<^verbatim>\<open>notes\<close> is
  \<open>notes_text\<close> here.
\<close>

record CreateOrderBody =
  plan_id :: string
  first_name :: string
  last_name :: string
  email :: string
  phone :: "string option"
  address_line1 :: string
  address_line2 :: "string option"
  city :: string
  state :: "string option"
  postal_code :: string
  country :: string
  notes_text :: "string option"

text \<open>
  \<^verbatim>\<open>schemas.Order\<close> repeats every field of \<^verbatim>\<open>CreateOrderBody\<close> and adds five; the
  record extension shares the twelve field names.
\<close>

record OrderSchema = CreateOrderBody +
  plan_name :: string
  plan_price :: pyfloat
  status :: string
  payment_reference :: "string option"
  total :: pyfloat

text \<open>\<^verbatim>\<open>main.PaymentBody\<close>. The field \<^verbatim>\<open>method\<close> is \<open>payment_method\<close> here.\<close>

record PaymentBody =
  payment_method :: string
  token :: "string option"

subsection \<open>The document store\<close>

text \<open>
  A document: its identifier (\<^verbatim>\<open>_id\<close>, twelve bytes, in the store; \<^verbatim>\<open>id\<close>, the string
  of that ObjectId, in a response), the fields of its schema and the two time stamps.
\<close>

record ('i, 'a) document =
  ident :: 'i
  payload :: 'a
  created_at :: datetime
  updated_at :: datetime

type_synonym 'a collection = "(stored_id, 'a) document list"

record database =
  plan_coll :: "PlanSchema collection"
  order_coll :: "OrderSchema collection"

datatype error =
    HTTPException nat string
  | DuplicateKeyError
  | BulkWriteError
  | InvalidId
  | TypeError
  | NotImplementedError

text \<open>
  What one request takes from its environment: \<open>utcnow n\<close> is the \<open>n\<close>-th reading of
  \<^verbatim>\<open>datetime.utcnow()\<close> the request makes, \<open>new_oid n\<close> the \<open>n\<close>-th identifier the driver
  generates for a document the request inserts, and \<open>db_truth\<close> is what the driver
  answers to \<^verbatim>\<open>bool(db)\<close> on a configured handle: a truth value, or an exception where the
  driver's handle refuses the test.
\<close>

record env =
  utcnow :: "nat \<Rightarrow> datetime"
  new_oid :: "nat \<Rightarrow> stored_id"
  db_truth :: "error + bool"

text \<open>
  \<^verbatim>\<open>coll.find_one({"_id": k})\<close>: the first document whose identifier has the bytes of
  \<open>k\<close>. An ObjectId of fewer than twelve bytes is the identifier of no document.
\<close>

definition find_one :: "'a collection \<Rightarrow> objectid \<Rightarrow> (stored_id, 'a) document option" where
  "find_one coll k = find (\<lambda>d. oid_bytes (ident d) = k) coll"

text \<open>What the store holds of a document written to it: the time stamps in milliseconds.\<close>

definition bson_doc :: "(stored_id, 'a) document \<Rightarrow> (stored_id, 'a) document" where
  "bson_doc d =
     d\<lparr>created_at := bson_datetime (created_at d), updated_at := bson_datetime (updated_at d)\<rparr>"

text \<open>
  \<^verbatim>\<open>coll.insert_one(d)\<close>: appends, or raises \<^verbatim>\<open>DuplicateKeyError\<close> when the identifier
  is taken.
\<close>

definition insert_one ::
  "'a collection \<Rightarrow> (stored_id, 'a) document \<Rightarrow> error option \<times> 'a collection" where
  "insert_one coll d =
     (if find_one coll (oid_bytes (ident d)) \<noteq> None then (Some DuplicateKeyError, coll)
      else (None, coll @ [bson_doc d]))"

text \<open>
  \<^verbatim>\<open>coll.insert_many(ds)\<close>, ordered: inserts in turn and stops with
  \<^verbatim>\<open>BulkWriteError\<close> at the first identifier that is taken, keeping what went in.
\<close>

fun insert_many ::
  "'a collection \<Rightarrow> (stored_id, 'a) document list \<Rightarrow> error option \<times> 'a collection" where
  "insert_many coll [] = (None, coll)"
| "insert_many coll (d # ds) =
     (if find_one coll (oid_bytes (ident d)) \<noteq> None then (Some BulkWriteError, coll)
      else insert_many (coll @ [bson_doc d]) ds)"

text \<open>
  \<^verbatim>\<open>coll.update_one({"_id": k}, {"$set": ...})\<close>: \<open>f\<close> sets the fields on the first
  document whose identifier has the bytes of \<open>k\<close>.
\<close>

fun update_one ::
  "'a collection \<Rightarrow> objectid \<Rightarrow> ((stored_id, 'a) document \<Rightarrow> (stored_id, 'a) document)
     \<Rightarrow> 'a collection" where
  "update_one [] k f = []"
| "update_one (d # ds) k f =
     (if oid_bytes (ident d) = k then f d # ds else d # update_one ds k f)"

text \<open>
  The record a handler returns: \<^verbatim>\<open>doc["id"] = str(doc["_id"]); doc.pop("_id", None)\<close>.
\<close>

definition with_str_id :: "(stored_id, 'a) document \<Rightarrow> (string, 'a) document" where
  "with_str_id d =
     \<lparr>ident = str_oid (oid_bytes (ident d)), payload = payload d,
      created_at = created_at d, updated_at = updated_at d\<rparr>"

text \<open>
  Modelled from the spec: \<^verbatim>\<open>create_document\<close> of the module \<^verbatim>\<open>database\<close>, which is not
  among the sources. The spec has it insert the document, the store assigning the
  identity, with created and updated time stamps, and \<^verbatim>\<open>create_order\<close> takes its result
  as the identifier of what was inserted.
\<close>

definition create_document ::
  "env \<Rightarrow> 'a collection \<Rightarrow> 'a \<Rightarrow> (error + string) \<times> 'a collection" where
  "create_document e coll data =
     (let d = \<lparr>ident = new_oid e 0, payload = data,
               created_at = utcnow e 0, updated_at = utcnow e 1\<rparr>
      in case insert_one coll d of
           (Some err, coll') \<Rightarrow> (Inl err, coll')
         | (None, coll') \<Rightarrow> (Inr (str_oid (oid_bytes (ident d))), coll'))"

subsection \<open>Helpers\<close>

definition oid :: "string \<Rightarrow> error + objectid" where
  "oid oid_str =
     (case ObjectId oid_str of
        Some k \<Rightarrow> Inr k
      | None \<Rightarrow> Inl (HTTPException 400 ''Invalid ID format''))"

definition defaults :: "PlanSchema list" where
  "defaults =
     [\<lparr>name = ''Essential Will'',
       description = ''A legally valid simple Will for a single person.'',
       price = 79,
       features = [''Legally valid simple Will'', ''Appointment of executors'',
                   ''Basic gifts and bequests'']\<rparr>,
      \<lparr>name = ''Couples Will'',
       description = ''Mirror Wills for couples with aligned wishes.'',
       price = 129,
       features = [''Two matching Wills'', ''Guardians for children'',
                   ''Replacement executors'']\<rparr>,
      \<lparr>name = ''Premium Estate Plan'',
       description = ''Comprehensive Will with additional estate planning guidance.'',
       price = 199,
       features = [''Complex gifts and trusts'', ''Digital asset wishes'',
                   ''One review session'']\<rparr>]"

text \<open>
  The loop over \<^verbatim>\<open>defaults\<close> reads the clock twice for each plan; \<^verbatim>\<open>insert_many\<close> then
  gives each its identifier.
\<close>

fun stamp_defaults :: "env \<Rightarrow> nat \<Rightarrow> PlanSchema list \<Rightarrow> (stored_id, PlanSchema) document list" where
  "stamp_defaults e i [] = []"
| "stamp_defaults e i (d # ds) =
     \<lparr>ident = new_oid e i, payload = d,
      created_at = utcnow e (2 * i), updated_at = utcnow e (2 * i + 1)\<rparr>
       # stamp_defaults e (Suc i) ds"

text \<open>
  The handle \<^verbatim>\<open>db\<close> is \<open>None\<close> when no database is configured. The source tests it
  twice: \<^verbatim>\<open>if db\<close>, the truth value of the handle (\<open>False\<close> for \<^verbatim>\<open>None\<close>, the driver's
  answer otherwise), and \<^verbatim>\<open>db is not None\<close>.
\<close>

definition ensure_default_plans ::
  "env \<Rightarrow> database option
     \<Rightarrow> (error + (stored_id, PlanSchema) document list) \<times> database option" where
  "ensure_default_plans e db =
     (case (case db of None \<Rightarrow> Inr False | Some _ \<Rightarrow> db_truth e) of
        Inl err \<Rightarrow> (Inl err, db)
      | Inr truth \<Rightarrow>
          (let existing = (case db of Some d \<Rightarrow> if truth then plan_coll d else [] | None \<Rightarrow> [])
           in case db of
                Some d \<Rightarrow>
                  if existing = [] then
                    (case insert_many (plan_coll d) (stamp_defaults e 0 defaults) of
                       (Some err, coll') \<Rightarrow> (Inl err, Some (d\<lparr>plan_coll := coll'\<rparr>))
                     | (None, coll') \<Rightarrow> (Inr coll', Some (d\<lparr>plan_coll := coll'\<rparr>)))
                  else (Inr existing, db)
              | None \<Rightarrow> (Inr existing, db)))"

subsection \<open>Routes\<close>

definition list_plans ::
  "env \<Rightarrow> database option
     \<Rightarrow> (error + (string, PlanSchema) document list) \<times> database option" where
  "list_plans e db =
     (case db of
        None \<Rightarrow> (Inl (HTTPException 500 ''Database not configured''), db)
      | Some _ \<Rightarrow>
          (case ensure_default_plans e db of
             (Inl err, db') \<Rightarrow> (Inl err, db')
           | (Inr plans, db') \<Rightarrow> (Inr (map with_str_id plans), db')))"

definition create_order ::
  "env \<Rightarrow> database option \<Rightarrow> CreateOrderBody
     \<Rightarrow> (error + (string, OrderSchema) document) \<times> database option" where
  "create_order e db body =
     (case db of
        None \<Rightarrow> (Inl (HTTPException 500 ''Database not configured''), db)
      | Some d \<Rightarrow>
          (case oid (plan_id body) of
             Inl err \<Rightarrow> (Inl err, db)
           | Inr k \<Rightarrow>
               (case find_one (plan_coll d) k of
                  None \<Rightarrow> (Inl (HTTPException 404 ''Plan not found''), db)
                | Some plan_doc \<Rightarrow>
                    (let order =
                       \<lparr>plan_id = str_oid (oid_bytes (ident plan_doc)),
                        first_name = first_name body,
                        last_name = last_name body,
                        email = email body,
                        phone = phone body,
                        address_line1 = address_line1 body,
                        address_line2 = address_line2 body,
                        city = city body,
                        state = state body,
                        postal_code = postal_code body,
                        country = country body,
                        notes_text = notes_text body,
                        plan_name = name (payload plan_doc),
                        plan_price = price (payload plan_doc),
                        status = ''created'',
                        payment_reference = None,
                        total = price (payload plan_doc)\<rparr>
                     in case create_document e (order_coll d) order of
                          (Inl err, coll') \<Rightarrow> (Inl err, Some (d\<lparr>order_coll := coll'\<rparr>))
                        | (Inr inserted_id, coll') \<Rightarrow>
                            (case ObjectId inserted_id of
                               None \<Rightarrow> (Inl InvalidId, Some (d\<lparr>order_coll := coll'\<rparr>))
                             | Some k' \<Rightarrow>
                                 (case find_one coll' k' of
                                    None \<Rightarrow> (Inl TypeError, Some (d\<lparr>order_coll := coll'\<rparr>))
                                  | Some created \<Rightarrow>
                                      (Inr (with_str_id created),
                                       Some (d\<lparr>order_coll := coll'\<rparr>))))))))"

definition get_order ::
  "database option \<Rightarrow> string \<Rightarrow> error + (string, OrderSchema) document" where
  "get_order db order_id =
     (case db of
        None \<Rightarrow> Inl (HTTPException 500 ''Database not configured'')
      | Some d \<Rightarrow>
          (case oid order_id of
             Inl err \<Rightarrow> Inl err
           | Inr k \<Rightarrow>
               (case find_one (order_coll d) k of
                  None \<Rightarrow> Inl (HTTPException 404 ''Order not found'')
                | Some doc \<Rightarrow> Inr (with_str_id doc))))"

definition payment_ref :: "string \<Rightarrow> datetime \<Rightarrow> string" where
  "payment_ref order_id now =
     ''PMT-'' @ upper (last6 order_id) @ ''-'' @ str_int (int_timestamp now)"

text \<open>The \<^verbatim>\<open>$set\<close> of \<^verbatim>\<open>pay_order\<close>, as the store takes it.\<close>

definition set_paid ::
  "string \<Rightarrow> datetime \<Rightarrow> (stored_id, OrderSchema) document \<Rightarrow> (stored_id, OrderSchema) document" where
  "set_paid ref now doc =
     doc\<lparr>payload := (payload doc)\<lparr>status := ''paid'', payment_reference := Some ref\<rparr>,
         updated_at := bson_datetime now\<rparr>"

text \<open>
  \<^verbatim>\<open>oid(order_id)\<close> is evaluated three times in the source, each time to the same
  \<open>k\<close>. The body is a parameter the source never reads.
\<close>

definition pay_order ::
  "env \<Rightarrow> database option \<Rightarrow> string \<Rightarrow> PaymentBody
     \<Rightarrow> (error + (string, OrderSchema) document) \<times> database option" where
  "pay_order e db order_id body =
     (case db of
        None \<Rightarrow> (Inl (HTTPException 500 ''Database not configured''), db)
      | Some d \<Rightarrow>
          (case oid order_id of
             Inl err \<Rightarrow> (Inl err, db)
           | Inr k \<Rightarrow>
               (case find_one (order_coll d) k of
                  None \<Rightarrow> (Inl (HTTPException 404 ''Order not found''), db)
                | Some doc \<Rightarrow>
                    (let ref = payment_ref order_id (utcnow e 0);
                         coll' = update_one (order_coll d) k (set_paid ref (utcnow e 1));
                         db' = Some (d\<lparr>order_coll := coll'\<rparr>)
                     in case find_one coll' k of
                          None \<Rightarrow> (Inl TypeError, db')
                        | Some updated \<Rightarrow> (Inr (with_str_id updated), db')))))"

subsection \<open>Sequences of requests\<close>

text \<open>Successive calls of \<^verbatim>\<open>list_plans\<close>, one environment for each.\<close>

fun list_plans_calls :: "env list \<Rightarrow> database option \<Rightarrow> database option" where
  "list_plans_calls [] db = db"
| "list_plans_calls (e # es) db = list_plans_calls es (snd (list_plans e db))"

text \<open>
  One request served on a configured database: any of the four handlers, with any
  argument and in any environment, whether it returns or raises. The two other routes,
  \<^verbatim>\<open>/\<close> and \<^verbatim>\<open>/test\<close>, write nothing.
\<close>

inductive step :: "database \<Rightarrow> database \<Rightarrow> bool" where
  step_list_plans: "list_plans e (Some d) = (r, Some d') \<Longrightarrow> step d d'"
| step_create_order: "create_order e (Some d) body = (r, Some d') \<Longrightarrow> step d d'"
| step_get_order: "get_order (Some d) order_id = r \<Longrightarrow> step d d"
| step_pay_order: "pay_order e (Some d) order_id pbody = (r, Some d') \<Longrightarrow> step d d'"

text \<open>The states the service reaches from a database that holds no order.\<close>

inductive reachable :: "database \<Rightarrow> bool" where
  reachable_init: "order_coll d = [] \<Longrightarrow> reachable d"
| reachable_step: "reachable d \<Longrightarrow> step d d' \<Longrightarrow> reachable d'"

subsection \<open>Predicates of the specification\<close>

text \<open>The pattern \<^verbatim>\<open>PMT-<6 chars>-<digits>\<close>.\<close>

definition matches_payment_pattern :: "string \<Rightarrow> bool" where
  "matches_payment_pattern s =
     (take 4 s = ''PMT-'' \<and> length (take 6 (drop 4 s)) = 6 \<and> take 1 (drop 10 s) = ''-''
      \<and> drop 11 s \<noteq> [] \<and> list_all is_digit (drop 11 s))"

text \<open>
  Two stored orders that differ at most in \<^verbatim>\<open>status\<close>, \<^verbatim>\<open>payment_reference\<close> and
  \<^verbatim>\<open>updated_at\<close>.
\<close>

definition same_but_payment ::
  "(stored_id, OrderSchema) document \<Rightarrow> (stored_id, OrderSchema) document \<Rightarrow> bool" where
  "same_but_payment d d' =
     (d'\<lparr>payload := (payload d')\<lparr>status := status (payload d),
                                 payment_reference := payment_reference (payload d)\<rparr>,
         updated_at := updated_at d\<rparr> = d)"

definition status_ok :: "(stored_id, OrderSchema) document \<Rightarrow> bool" where
  "status_ok d = (status (payload d) = ''created'' \<or> status (payload d) = ''paid'')"

subsection \<open>Example data\<close>

definition essential_plan :: "(stored_id, PlanSchema) document" where
  "essential_plan =
     \<lparr>ident = 0x64b7f3a2c1d4e5f6a7b8c9d0,
      payload = \<lparr>name = ''Essential Will'',
                 description = ''A legally valid simple Will for a single person.'',
                 price = 79,
                 features = [''Legally valid simple Will'', ''Appointment of executors'',
                             ''Basic gifts and bequests'']\<rparr>,
      created_at = 1730000000000000, updated_at = 1730000000000000\<rparr>"

definition jane_body :: CreateOrderBody where
  "jane_body =
     \<lparr>plan_id = ''64B7F3A2C1D4E5F6A7B8C9D0'', first_name = ''Jane'', last_name = ''Doe'',
      email = ''jane@example.com'', phone = None, address_line1 = ''1 High Street'',
      address_line2 = None, city = ''Leeds'', state = None, postal_code = ''LS1 1AA'',
      country = ''GB'', notes_text = None\<rparr>"

definition jane_env :: env where
  "jane_env =
     \<lparr>utcnow = (\<lambda>n. 1730000100123456 + int n),
      new_oid = (\<lambda>n. 0x64b7f3a2c1d4e5f6a7b8c9e0 + word_of_nat n),
      db_truth = Inr True\<rparr>"

definition pay_env :: env where
  "pay_env =
     \<lparr>utcnow = (\<lambda>n. 1730000200987654 + int n),
      new_oid = (\<lambda>n. 0x64b7f3a2c1d4e5f6a7b8c9f0 + word_of_nat n),
      db_truth = Inr True\<rparr>"

text \<open>An environment whose handle refuses the truth test, as the driver's does.\<close>

definition refusing_env :: env where
  "refusing_env =
     \<lparr>utcnow = (\<lambda>n. 1730000300000000 + int n),
      new_oid = (\<lambda>n. 0x64b7f3a2c1d4e5f6a7b8ca00 + word_of_nat n),
      db_truth = Inl NotImplementedError\<rparr>"


definition empty_db :: database where
  "empty_db = \<lparr>plan_coll = [], order_coll = []\<rparr>"

definition plan_db :: database where
  "plan_db = \<lparr>plan_coll = [essential_plan], order_coll = []\<rparr>"

definition jane_order :: "(stored_id, OrderSchema) document" where
  "jane_order =
     \<lparr>ident = 0x64b7f3a2c1d4e5f6a7b8c9e0,
      payload =
        \<lparr>plan_id = ''64b7f3a2c1d4e5f6a7b8c9d0'', first_name = ''Jane'', last_name = ''Doe'',
         email = ''jane@example.com'', phone = None, address_line1 = ''1 High Street'',
         address_line2 = None, city = ''Leeds'', state = None, postal_code = ''LS1 1AA'',
         country = ''GB'', notes_text = None,
         plan_name = ''Essential Will'', plan_price = 79, status = ''created'',
         payment_reference = None, total = 79\<rparr>,
      created_at = 1730000100123000, updated_at = 1730000100123000\<rparr>"

definition order_db :: database where
  "order_db = \<lparr>plan_coll = [essential_plan], order_coll = [jane_order]\<rparr>"

definition card_body :: PaymentBody where
  "card_body = \<lparr>payment_method = ''card'', token = None\<rparr>"

definition paid_order :: "(stored_id, OrderSchema) document" where
  "paid_order = set_paid ''PMT-B8C9E0-1730000200'' 1730000200987655 jane_order"

definition paid_db :: database where
  "paid_db = \<lparr>plan_coll = [essential_plan], order_coll = [paid_order]\<rparr>"

section \<open>Lemmas\<close>

subsection \<open>Decimal and hexadecimal strings\<close>

lemma upt_10: "[0..<10] = [0, 1, 2, 3, 4, 5, 6, 7, 8, 9::nat]"
  by code_simp

lemma upt_16: "[0..<16] = [0, 1, 2, 3, 4, 5, 6, 7, 8, 9, 10, 11, 12, 13, 14, 15::nat]"
  by code_simp

lemma digit_chars: "list_all (\<lambda>d. is_digit (digit_char d)) [0..<10]"
  unfolding upt_10 by (simp add: is_digit_def digit_char_def)

lemma is_digit_digit_char: "k < 10 \<Longrightarrow> is_digit (digit_char k)"
  using digit_chars by (simp add: list_all_iff)

lemma str_nat_digits: "str_nat n \<noteq> [] \<and> list_all is_digit (str_nat n)"
proof (induction n rule: str_nat.induct)
  case (1 n)
  show ?case
  proof (cases "n < 10")
    case True
    then show ?thesis by (simp add: is_digit_digit_char)
  next
    case False
    with 1 have "str_nat (n div 10) \<noteq> [] \<and> list_all is_digit (str_nat (n div 10))" by simp
    with False show ?thesis
      by (subst (1 2) str_nat.simps) (simp add: is_digit_digit_char)
  qed
qed

lemma hex_chars:
  "list_all (\<lambda>d. hex_val (hex_char d) = Some d \<and> \<not> is_space (hex_char d)) [0..<16]"
  unfolding upt_16 by (simp add: hex_val_def hex_char_def is_space_def)

lemma hex_val_hex_char: "d < 16 \<Longrightarrow> hex_val (hex_char d) = Some d"
  using hex_chars by (simp add: list_all_iff)

lemma not_space_hex_char: "d < 16 \<Longrightarrow> \<not> is_space (hex_char d)"
  using hex_chars by (simp add: list_all_iff)

lemma hex_table_upper:
  "list_all (\<lambda>(c, v). v < 16 \<and> upper_char (hex_char v) = upper_char c \<and> \<not> is_space c)
       [(CHR ''0'', 0), (CHR ''1'', 1), (CHR ''2'', 2), (CHR ''3'', 3), (CHR ''4'', 4),
        (CHR ''5'', 5), (CHR ''6'', 6), (CHR ''7'', 7), (CHR ''8'', 8), (CHR ''9'', 9),
        (CHR ''a'', 10), (CHR ''b'', 11), (CHR ''c'', 12), (CHR ''d'', 13), (CHR ''e'', 14),
        (CHR ''f'', 15),
        (CHR ''A'', 10), (CHR ''B'', 11), (CHR ''C'', 12), (CHR ''D'', 13), (CHR ''E'', 14),
        (CHR ''F'', 15)]"
  by (simp add: hex_char_def upper_char_def is_space_def)

lemma hex_val_upper:
  assumes "hex_val c = Some v"
  shows "v < 16 \<and> upper_char (hex_char v) = upper_char c \<and> \<not> is_space c"
proof -
  from assms have "(c, v) \<in> set
       [(CHR ''0'', 0), (CHR ''1'', 1), (CHR ''2'', 2), (CHR ''3'', 3), (CHR ''4'', 4),
        (CHR ''5'', 5), (CHR ''6'', 6), (CHR ''7'', 7), (CHR ''8'', 8), (CHR ''9'', 9),
        (CHR ''a'', 10), (CHR ''b'', 11), (CHR ''c'', 12), (CHR ''d'', 13), (CHR ''e'', 14),
        (CHR ''f'', 15),
        (CHR ''A'', 10), (CHR ''B'', 11), (CHR ''C'', 12), (CHR ''D'', 13), (CHR ''E'', 14),
        (CHR ''F'', 15)]"
    unfolding hex_val_def by (rule map_of_SomeD)
  with hex_table_upper show ?thesis
    unfolding list_all_iff by blast
qed

lemma byte_split:
  fixes b :: "8 word"
  shows "unat b div 16 < 16" and "unat b mod 16 < 16"
    and "word_of_nat (16 * (unat b div 16) + unat b mod 16) = b"
proof -
  have "unat b < 2 ^ 8" using unsigned_less [of b] by simp
  then show "unat b div 16 < 16" by simp
  show "unat b mod 16 < 16" by simp
  show "word_of_nat (16 * (unat b div 16) + unat b mod 16) = b" by simp
qed

lemma fromhex_hex_byte: "fromhex (hex_byte b @ s) = map_option ((#) b) (fromhex s)"
  by (simp add: hex_byte_def not_space_hex_char hex_val_hex_char byte_split)

lemma fromhex_str_oid: "fromhex (str_oid k) = Some k"
proof (induction k)
  case Nil
  then show ?case by (simp add: str_oid_def)
next
  case (Cons b k)
  have "str_oid (b # k) = hex_byte b @ str_oid k" by (simp add: str_oid_def)
  then show ?case by (simp add: fromhex_hex_byte Cons)
qed

lemma length_str_oid: "length (str_oid k) = 2 * length k"
  by (induction k) (simp_all add: str_oid_def hex_byte_def)

lemma length_be_bytes: "length (be_bytes k n) = k"
  by (induction k arbitrary: n) auto

lemma length_oid_bytes: "length (oid_bytes w) = 12"
  by (simp add: oid_bytes_def length_be_bytes)

text \<open>The string of a stored identifier is read back as that identifier.\<close>

lemma ObjectId_str_oid: "ObjectId (str_oid (oid_bytes w)) = Some (oid_bytes w)"
  by (simp add: ObjectId_def length_str_oid length_oid_bytes fromhex_str_oid)

lemma ObjectId_length: "ObjectId s = Some k \<Longrightarrow> length s = 24"
  by (simp add: ObjectId_def split: if_splits)

lemma fromhex_length: "fromhex s = Some k \<Longrightarrow> 2 * length k \<le> length s"
proof (induction s arbitrary: k rule: induct_list012)
  case 1
  then show ?case by simp
next
  case (2 c)
  then show ?case by (simp split: if_splits)
next
  case (3 c c' cs)
  show ?case
  proof (cases "is_space c")
    case True
    with "3.prems" have "fromhex (c' # cs) = Some k" by simp
    from "3.IH"(2) [OF this] show ?thesis by simp
  next
    case False
    with "3.prems" obtain k' where "fromhex cs = Some k'" "length k = Suc (length k')"
      by (auto split: option.splits)
    with "3.IH"(1) [of k'] show ?thesis by simp
  qed
qed

text \<open>
  Where the 24 characters give twelve bytes, none was whitespace, and the string of the
  ObjectId is the identifier that was given, in lower case.
\<close>

lemma fromhex_upper:
  "fromhex s = Some k \<Longrightarrow> length s = 2 * length k \<Longrightarrow> upper (str_oid k) = upper s"
proof (induction s arbitrary: k rule: induct_list012)
  case 1
  then show ?case by (simp add: str_oid_def upper_def)
next
  case (2 c)
  then show ?case by (simp split: if_splits)
next
  case (3 c c' cs)
  show ?case
  proof (cases "is_space c")
    case True
    with "3.prems"(1) have "fromhex (c' # cs) = Some k" by simp
    from fromhex_length [OF this] "3.prems"(2) show ?thesis by simp
  next
    case False
    define w :: "8 word" where "w = word_of_nat (16 * the (hex_val c) + the (hex_val c'))"
    from False "3.prems"(1) obtain t b k' where t: "hex_val c = Some t" and b: "hex_val c' = Some b"
      and k': "fromhex cs = Some k'" and k: "k = w # k'"
      by (auto simp: w_def split: option.splits)
    from hex_val_upper [OF t] hex_val_upper [OF b]
    have t16: "t < 16" and b16: "b < 16"
      and ut: "upper_char (hex_char t) = upper_char c"
      and ub: "upper_char (hex_char b) = upper_char c'"
      by simp_all
    have "unat w = (16 * t + b) mod 2 ^ LENGTH(8)"
      unfolding w_def t b option.sel by (rule unat_of_nat)
    moreover have "16 * t + b < 2 ^ 8" using t16 b16 by simp
    ultimately have u: "unat w = 16 * t + b" by simp
    have d: "unat w div 16 = t" and m: "unat w mod 16 = b"
      using b16 by (simp_all add: u)
    have len: "length cs = 2 * length k'" using "3.prems"(2) k by simp
    from "3.IH"(1) [OF k' len] have "upper (str_oid k') = upper cs" .
    then show ?thesis
      by (simp add: k str_oid_def hex_byte_def d m upper_def ut ub)
  qed
qed

lemma upper_str_oid:
  "ObjectId s = Some k \<Longrightarrow> length k = 12 \<Longrightarrow> upper (str_oid k) = upper s"
  by (rule fromhex_upper) (simp_all add: ObjectId_def split: if_splits)

lemma upper_last6: "upper (last6 s) = last6 (upper s)"
  by (simp add: upper_def last6_def drop_map)

lemma last6_str_oid:
  "ObjectId s = Some k \<Longrightarrow> length k = 12 \<Longrightarrow> upper (last6 (str_oid k)) = upper (last6 s)"
  by (simp add: upper_last6 upper_str_oid)

lemma length_upper_last6: "length s = 24 \<Longrightarrow> length (upper (last6 s)) = 6"
  by (simp add: upper_def last6_def)

lemma payment_pattern:
  assumes "length six = 6" and "0 \<le> t"
  shows "matches_payment_pattern (''PMT-'' @ six @ ''-'' @ str_int t)"
  using assms str_nat_digits [of "nat t"]
  by (simp add: matches_payment_pattern_def str_int_def)




lemma fromhex_rejects:
  "hex_val c = None \<Longrightarrow> \<not> is_space c \<Longrightarrow> fromhex (c # cs) = None"
  by (cases cs) simp_all

subsection \<open>The document store\<close>

lemma find_one_Nil: "find_one [] k = None"
  by (simp add: find_one_def)

lemma find_one_Cons:
  "find_one (d # ds) k = (if oid_bytes (ident d) = k then Some d else find_one ds k)"
  by (simp add: find_one_def)

lemma find_one_append:
  "find_one (xs @ ys) k = (case find_one xs k of Some d \<Rightarrow> Some d | None \<Rightarrow> find_one ys k)"
  by (induction xs) (simp_all add: find_one_Nil find_one_Cons)

lemma find_one_ident: "find_one coll k = Some d \<Longrightarrow> oid_bytes (ident d) = k"
  by (induction coll) (auto simp: find_one_Nil find_one_Cons split: if_splits)

lemma update_one_split:
  "find_one coll k = Some d \<Longrightarrow>
     \<exists>pre post. coll = pre @ d # post \<and> find_one pre k = None
       \<and> update_one coll k f = pre @ f d # post"
proof (induction coll)
  case Nil
  then show ?case by (simp add: find_one_Nil)
next
  case (Cons x xs)
  show ?case
  proof (cases "oid_bytes (ident x) = k")
    case True
    with Cons.prems have "x = d" by (simp add: find_one_Cons)
    with True have "x # xs = [] @ d # xs \<and> find_one [] k = None
        \<and> update_one (x # xs) k f = [] @ f d # xs"
      by (simp add: find_one_Nil)
    then show ?thesis by blast
  next
    case False
    with Cons.prems have "find_one xs k = Some d" by (simp add: find_one_Cons)
    from Cons.IH [OF this] obtain pre post where
      "xs = pre @ d # post" "find_one pre k = None" "update_one xs k f = pre @ f d # post"
      by blast
    with False have "x # xs = (x # pre) @ d # post \<and> find_one (x # pre) k = None
        \<and> update_one (x # xs) k f = (x # pre) @ f d # post"
      by (simp add: find_one_Cons)
    then show ?thesis by blast
  qed
qed

lemma find_one_update_one:
  assumes "\<And>d. ident (f d) = ident d"
  shows "find_one (update_one coll k f) k' =
           (if k' = k then map_option f (find_one coll k) else find_one coll k')"
  using assms by (induction coll) (auto simp: find_one_Nil find_one_Cons)

lemma ident_set_paid: "ident (set_paid ref t d) = ident d"
  by (simp add: set_paid_def)

lemma ident_bson_doc: "ident (bson_doc d) = ident d"
  by (simp add: bson_doc_def)

lemma payload_bson_doc: "payload (bson_doc d) = payload d"
  by (simp add: bson_doc_def)

lemma same_but_payment_set_paid: "same_but_payment d (set_paid ref t d)"
  by (simp add: same_but_payment_def set_paid_def)

lemma status_set_paid: "status (payload (set_paid ref t d)) = ''paid''"
  by (simp add: set_paid_def)

lemma insert_many_fresh:
  "distinct (map (\<lambda>d. oid_bytes (ident d)) ds) \<Longrightarrow>
   \<forall>d \<in> set ds. find_one coll (oid_bytes (ident d)) = None \<Longrightarrow>
     insert_many coll ds = (None, coll @ map bson_doc ds)"
proof (induction ds arbitrary: coll)
  case Nil
  then show ?case by simp
next
  case (Cons d ds)
  have "\<forall>x \<in> set ds. find_one (coll @ [bson_doc d]) (oid_bytes (ident x)) = None"
    using Cons.prems
    by (auto simp: find_one_append find_one_Cons find_one_Nil ident_bson_doc)
  with Cons.IH [of "coll @ [bson_doc d]"] Cons.prems show ?case by simp
qed

subsection \<open>What each handler does\<close>

lemma oid_Some: "ObjectId s = Some k \<Longrightarrow> oid s = Inr k"
  by (simp add: oid_def)

lemma get_order_found:
  "ObjectId order_id = Some k \<Longrightarrow> find_one (order_coll d) k = Some doc \<Longrightarrow>
     get_order (Some d) order_id = Inr (with_str_id doc)"
  by (simp add: get_order_def oid_Some)

lemma pay_order_found:
  assumes "ObjectId order_id = Some k" and "find_one (order_coll d) k = Some doc"
  shows "pay_order e (Some d) order_id body =
           (Inr (with_str_id (set_paid (payment_ref order_id (utcnow e 0)) (utcnow e 1) doc)),
            Some (d\<lparr>order_coll := update_one (order_coll d) k
                      (set_paid (payment_ref order_id (utcnow e 0)) (utcnow e 1))\<rparr>))"
  using assms
  by (simp add: pay_order_def oid_Some find_one_update_one ident_set_paid Let_def)

lemma pay_order_effect:
  "pay_order e (Some d) order_id body = (r, db') \<Longrightarrow>
     db' = Some d \<or>
     (\<exists>k ref t. db' = Some (d\<lparr>order_coll := update_one (order_coll d) k (set_paid ref t)\<rparr>))"
  by (auto simp: pay_order_def Let_def split: sum.splits option.splits)

lemma create_order_found:
  assumes "ObjectId (plan_id body) = Some k" and "find_one (plan_coll d) k = Some p"
    and "find_one (order_coll d) (oid_bytes (new_oid e 0)) = None"
    and "stored =
      \<lparr>ident = new_oid e 0,
       payload =
         \<lparr>plan_id = str_oid (oid_bytes (ident p)), first_name = first_name body,
          last_name = last_name body, email = email body, phone = phone body,
          address_line1 = address_line1 body, address_line2 = address_line2 body,
          city = city body, state = state body, postal_code = postal_code body,
          country = country body, notes_text = notes_text body,
          plan_name = name (payload p), plan_price = price (payload p),
          status = ''created'', payment_reference = None, total = price (payload p)\<rparr>,
       created_at = bson_datetime (utcnow e 0), updated_at = bson_datetime (utcnow e 1)\<rparr>"
  shows "create_order e (Some d) body =
           (Inr (with_str_id stored), Some (d\<lparr>order_coll := order_coll d @ [stored]\<rparr>))"
  using assms
  by (simp add: create_order_def oid_Some create_document_def insert_one_def Let_def
      ObjectId_str_oid find_one_append find_one_Cons find_one_Nil bson_doc_def)

lemma create_order_effect:
  "create_order e (Some d) body = (r, db') \<Longrightarrow>
     db' = Some d \<or>
     (\<exists>stored. db' = Some (d\<lparr>order_coll := order_coll d @ [stored]\<rparr>)
        \<and> status (payload stored) = ''created''
        \<and> payment_reference (payload stored) = None
        \<and> find_one (order_coll d) (oid_bytes (ident stored)) = None)"
  by (auto simp: create_order_def create_document_def insert_one_def Let_def bson_doc_def
      split: sum.splits option.splits if_splits)

lemma list_plans_effect:
  "list_plans e (Some d) = (r, db') \<Longrightarrow> \<exists>d'. db' = Some d' \<and> order_coll d' = order_coll d"
  by (auto simp: list_plans_def ensure_default_plans_def Let_def
      split: sum.splits option.splits if_splits prod.splits)

lemma list_plans_seeded:
  "plan_coll d \<noteq> [] \<Longrightarrow> db_truth e = Inr True \<Longrightarrow>
     list_plans e (Some d) = (Inr (map with_str_id (plan_coll d)), Some d)"
  by (simp add: list_plans_def ensure_default_plans_def)

subsection \<open>Evaluation on the example data\<close>

lemma be_bytes_numeral:
  "be_bytes (numeral n) m = be_bytes (pred_numeral n) (m div 256) @ [word_of_nat (m mod 256)]"
  by (simp only: numeral_eq_Suc [of n] be_bytes.simps)

lemma oid_bytes_essential:
  "oid_bytes (ident essential_plan)
     = [0x64, 0xb7, 0xf3, 0xa2, 0xc1, 0xd4, 0xe5, 0xf6, 0xa7, 0xb8, 0xc9, 0xd0]"
  by (simp add: essential_plan_def oid_bytes_def be_bytes_numeral)

lemma oid_bytes_jane:
  "oid_bytes (ident jane_order)
     = [0x64, 0xb7, 0xf3, 0xa2, 0xc1, 0xd4, 0xe5, 0xf6, 0xa7, 0xb8, 0xc9, 0xe0]"
  by (simp add: jane_order_def oid_bytes_def be_bytes_numeral)

lemma ObjectId_jane_plan: "ObjectId (plan_id jane_body) = Some (oid_bytes (ident essential_plan))"
  unfolding oid_bytes_essential
  by (simp add: jane_body_def ObjectId_def hex_val_def is_space_def)

lemma str_oid_essential:
  "str_oid (oid_bytes (ident essential_plan)) = ''64b7f3a2c1d4e5f6a7b8c9d0''"
  unfolding oid_bytes_essential
  by (simp add: str_oid_def hex_byte_def hex_char_def)


lemma ObjectId_jane_order:
  "ObjectId ''64b7f3a2c1d4e5f6a7b8c9e0'' = Some (oid_bytes (ident jane_order))"
  unfolding oid_bytes_jane
  by (simp add: ObjectId_def hex_val_def is_space_def)




lemma create_order_jane:
  "create_order jane_env (Some plan_db) jane_body = (Inr (with_str_id jane_order), Some order_db)"
proof -
  have "find_one (plan_coll plan_db) (oid_bytes (ident essential_plan)) = Some essential_plan"
    by (simp add: plan_db_def find_one_Cons)
  moreover have "find_one (order_coll plan_db) (oid_bytes (new_oid jane_env 0)) = None"
    by (simp add: plan_db_def find_one_Nil)
  moreover have "jane_order =
      \<lparr>ident = new_oid jane_env 0,
       payload =
         \<lparr>plan_id = str_oid (oid_bytes (ident essential_plan)),
          first_name = first_name jane_body,
          last_name = last_name jane_body, email = email jane_body, phone = phone jane_body,
          address_line1 = address_line1 jane_body, address_line2 = address_line2 jane_body,
          city = city jane_body, state = state jane_body, postal_code = postal_code jane_body,
          country = country jane_body, notes_text = notes_text jane_body,
          plan_name = name (payload essential_plan), plan_price = price (payload essential_plan),
          status = ''created'', payment_reference = None,
          total = price (payload essential_plan)\<rparr>,
       created_at = bson_datetime (utcnow jane_env 0),
       updated_at = bson_datetime (utcnow jane_env 1)\<rparr>"
    unfolding str_oid_essential
    by (simp add: jane_order_def jane_env_def jane_body_def essential_plan_def bson_datetime_def)
  ultimately have "create_order jane_env (Some plan_db) jane_body =
      (Inr (with_str_id jane_order),
       Some (plan_db\<lparr>order_coll := order_coll plan_db @ [jane_order]\<rparr>))"
    using ObjectId_jane_plan by (rule create_order_found [rotated])
  then show ?thesis by (simp add: plan_db_def order_db_def)
qed

lemma payment_ref_jane:
  "payment_ref ''64b7f3a2c1d4e5f6a7b8c9e0'' (utcnow pay_env 0) = ''PMT-B8C9E0-1730000200''"
  by (simp add: payment_ref_def pay_env_def upper_def last6_def upper_char_def
      str_int_def int_timestamp_def digit_char_def)

subsection \<open>The payment reference\<close>

lemma int_timestamp_nonneg: "0 \<le> t \<Longrightarrow> 0 \<le> int_timestamp t"
  by (simp add: int_timestamp_def)

lemma payment_ref_nonempty: "payment_ref order_id t \<noteq> []"
  by (simp add: payment_ref_def)

lemma payment_ref_pattern:
  "length order_id = 24 \<Longrightarrow> 0 \<le> t \<Longrightarrow> matches_payment_pattern (payment_ref order_id t)"
  unfolding payment_ref_def
  by (rule payment_pattern) (simp_all add: length_upper_last6 int_timestamp_nonneg)

lemma pay_order_stored:
  assumes "ObjectId order_id = Some k" and "find_one (order_coll d) k = Some doc"
  shows "\<exists>r d' stored.
      pay_order e (Some d) order_id body = (Inr r, Some d')
    \<and> find_one (order_coll d') k = Some stored
    \<and> r = with_str_id stored
    \<and> stored = set_paid (payment_ref order_id (utcnow e 0)) (utcnow e 1) doc"
  using assms pay_order_found [OF assms, of e body]
  by (simp add: find_one_update_one ident_set_paid)

subsection \<open>What a request does to the stored orders\<close>

lemma pay_order_jane:
  "pay_order pay_env (Some order_db) ''64b7f3a2c1d4e5f6a7b8c9e0'' card_body
     = (Inr (with_str_id paid_order), Some paid_db)"
proof -
  have a: "find_one (order_coll order_db) (oid_bytes (ident jane_order)) = Some jane_order"
    by (simp add: order_db_def find_one_Cons)
  have t: "utcnow pay_env 1 = 1730000200987655"
    by (simp add: pay_env_def)
  show ?thesis
    unfolding pay_order_found [OF ObjectId_jane_order a] payment_ref_jane t
    by (simp add: paid_order_def paid_db_def order_db_def)
qed

lemma length_update_one: "length (update_one coll k f) = length coll"
  by (induction coll) auto

lemma nth_update_one:
  "i < length coll \<Longrightarrow>
     update_one coll k f ! i = coll ! i \<or> update_one coll k f ! i = f (coll ! i)"
proof (induction coll arbitrary: i)
  case Nil
  then show ?case by simp
next
  case (Cons d ds)
  then show ?case by (cases i) auto
qed

lemma same_but_payment_refl: "same_but_payment d d"
  by (simp add: same_but_payment_def)

lemma pay_order_failed:
  assumes "pay_order e (Some d) order_id body = (Inl err, db')"
  shows "db' = Some d"
proof (cases "ObjectId order_id")
  case None
  with assms show ?thesis by (simp add: pay_order_def oid_def)
next
  case (Some k)
  show ?thesis
  proof (cases "find_one (order_coll d) k")
    case None
    with Some assms show ?thesis by (simp add: pay_order_def oid_def)
  next
    case (Some doc)
    from pay_order_found [OF \<open>ObjectId order_id = Some k\<close> Some, of e body] assms
    show ?thesis by simp
  qed
qed

text \<open>
  One request keeps every stored order in its place, as it was or with the three fields
  of a payment set, and adds at most new orders, each with status \<^verbatim>\<open>created\<close>.
\<close>

lemma step_orders:
  assumes "step d d'"
  shows "length (order_coll d) \<le> length (order_coll d')
     \<and> (\<forall>i<length (order_coll d).
           order_coll d' ! i = order_coll d ! i
           \<or> (\<exists>ref t. order_coll d' ! i = set_paid ref t (order_coll d ! i)))
     \<and> (\<forall>i. length (order_coll d) \<le> i \<and> i < length (order_coll d') \<longrightarrow>
           status (payload (order_coll d' ! i)) = ''created'')"
  using assms
proof cases
  case (step_list_plans e r)
  from list_plans_effect [OF step_list_plans] show ?thesis by auto
next
  case (step_create_order e body r)
  from create_order_effect [OF step_create_order] show ?thesis
    by (auto simp: nth_append)
next
  case (step_get_order order_id r)
  then show ?thesis by auto
next
  case (step_pay_order e order_id pbody r)
  from pay_order_effect [OF step_pay_order] show ?thesis
  proof
    assume "Some d' = Some d"
    then show ?thesis by auto
  next
    assume "\<exists>k ref t. Some d' = Some (d\<lparr>order_coll := update_one (order_coll d) k (set_paid ref t)\<rparr>)"
    then obtain k ref t where
      "d' = d\<lparr>order_coll := update_one (order_coll d) k (set_paid ref t)\<rparr>" by auto
    then show ?thesis
      using nth_update_one [of _ "order_coll d" k "set_paid ref t"]
      by (auto simp: length_update_one)
  qed
qed

lemma step_plan_db: "step plan_db order_db"
  using create_order_jane by (rule step_create_order)

lemma step_order_db: "step order_db paid_db"
  using pay_order_jane by (rule step_pay_order)

lemma reachable_order_db: "reachable order_db"
proof -
  have "reachable plan_db"
    by (rule reachable_init) (simp add: plan_db_def)
  then show ?thesis using step_plan_db by (rule reachable_step)
qed

lemma reachable_status_ok: "reachable d \<Longrightarrow> list_all status_ok (order_coll d)"
proof (induction rule: reachable.induct)
  case (reachable_init d)
  then show ?case by simp
next
  case (reachable_step d d')
  from step_orders [OF reachable_step.hyps(2)]
  have len: "length (order_coll d) \<le> length (order_coll d')"
    and old: "\<And>i. i < length (order_coll d) \<Longrightarrow>
           order_coll d' ! i = order_coll d ! i
           \<or> (\<exists>ref t. order_coll d' ! i = set_paid ref t (order_coll d ! i))"
    and new: "\<And>i. length (order_coll d) \<le> i \<Longrightarrow> i < length (order_coll d') \<Longrightarrow>
           status (payload (order_coll d' ! i)) = ''created''"
    by blast+
  have "status_ok (order_coll d' ! i)" if i: "i < length (order_coll d')" for i
  proof (cases "i < length (order_coll d)")
    case True
    with reachable_step.IH have "status_ok (order_coll d ! i)"
      by (simp add: list_all_length)
    with old [OF True] show ?thesis
      by (auto simp: status_ok_def status_set_paid)
  next
    case False
    with new [of i] i show ?thesis by (simp add: status_ok_def)
  qed
  then show ?case by (simp add: list_all_length)
qed

subsection \<open>Seeding and listing the plans\<close>

lemma stamp_defaults_0:
  "stamp_defaults e 0 defaults =
     [\<lparr>ident = new_oid e 0, payload = defaults ! 0,
       created_at = utcnow e 0, updated_at = utcnow e 1\<rparr>,
      \<lparr>ident = new_oid e 1, payload = defaults ! 1,
       created_at = utcnow e 2, updated_at = utcnow e 3\<rparr>,
      \<lparr>ident = new_oid e 2, payload = defaults ! 2,
       created_at = utcnow e 4, updated_at = utcnow e 5\<rparr>]"
  by (simp add: defaults_def numeral_2_eq_2 numeral_3_eq_3 eval_nat_numeral)

lemma payload_stamp_defaults: "map payload (stamp_defaults e i ps) = ps"
  by (induction ps arbitrary: i) auto

lemma ident_stamped:
  "map ident (stamp_defaults e 0 defaults) = [new_oid e 0, new_oid e 1, new_oid e 2]"
  by (simp add: stamp_defaults_0)

lemma list_plans_empty:
  assumes "plan_coll d = []"
    and "distinct [oid_bytes (new_oid e 0), oid_bytes (new_oid e 1), oid_bytes (new_oid e 2)]"
    and "db_truth e = Inr True"
  shows "list_plans e (Some d) =
     (Inr (map with_str_id (map bson_doc (stamp_defaults e 0 defaults))),
      Some (d\<lparr>plan_coll := map bson_doc (stamp_defaults e 0 defaults)\<rparr>))"
proof -
  have "distinct (map (\<lambda>d. oid_bytes (ident d)) (stamp_defaults e 0 defaults))"
    using assms(2) by (simp add: stamp_defaults_0)
  then have "insert_many [] (stamp_defaults e 0 defaults)
      = (None, [] @ map bson_doc (stamp_defaults e 0 defaults))"
    by (rule insert_many_fresh) (simp add: find_one_Nil)
  with assms(1,3) show ?thesis
    by (simp add: list_plans_def ensure_default_plans_def)
qed

lemma list_plans_calls_seeded:
  "plan_coll d \<noteq> [] \<Longrightarrow> \<forall>e \<in> set es. db_truth e = Inr True \<Longrightarrow>
     list_plans_calls es (Some d) = Some d"
  by (induction es) (simp_all add: list_plans_seeded)

text \<open>
  Were the handle to test true, as \<^verbatim>\<open>db is not None\<close> does on the next line of the
  source, seeding would happen once: the first call on an empty plan collection inserts
  the three defaults, and no later call inserts anything.
\<close>

lemma list_plans_seeds_once_if_truthy:
  assumes "plan_coll d = []"
    and "distinct [oid_bytes (new_oid e 0), oid_bytes (new_oid e 1), oid_bytes (new_oid e 2)]"
    and "db_truth e = Inr True" and "\<forall>e' \<in> set es. db_truth e' = Inr True"
  shows "\<exists>d'. list_plans e (Some d) = (Inr (map with_str_id (plan_coll d')), Some d')
     \<and> map payload (plan_coll d') = defaults
     \<and> length (plan_coll d') = 3
     \<and> list_plans_calls (e # es) (Some d) = Some d'"
proof -
  let ?d' = "d\<lparr>plan_coll := map bson_doc (stamp_defaults e 0 defaults)\<rparr>"
  have l: "list_plans e (Some d) = (Inr (map with_str_id (plan_coll ?d')), Some ?d')"
    using list_plans_empty [OF assms(1,2,3)] by simp
  have ne: "plan_coll ?d' \<noteq> []"
    by (simp add: stamp_defaults_0)
  have 1: "map payload (plan_coll ?d') = defaults"
    by (simp add: payload_stamp_defaults comp_def payload_bson_doc)
  have 2: "length (plan_coll ?d') = 3"
    by (simp add: stamp_defaults_0)
  have 3: "list_plans_calls (e # es) (Some d) = Some ?d'"
    using list_plans_calls_seeded [OF ne assms(4)] by (simp add: l)
  from l 1 2 3 show ?thesis
    by (intro exI [of _ ?d'] conjI)
qed

text \<open>
  Where the handle refuses the truth test, \<^verbatim>\<open>list_plans\<close> raises and seeds nothing,
  however often it is called.
\<close>

lemma list_plans_refused:
  "db_truth e = Inl err \<Longrightarrow> list_plans e (Some d) = (Inl err, Some d)"
  by (simp add: list_plans_def ensure_default_plans_def)

lemma list_plans_calls_refused:
  "\<forall>e \<in> set es. \<exists>err. db_truth e = Inl err \<Longrightarrow> list_plans_calls es (Some d) = Some d"
  by (induction es) (auto simp: list_plans_refused)

section \<open>The claims\<close>

text \<open>
  C10. \<^verbatim>\<open>pay_order\<close> ignores its request body: on the same order id, database and
  environment, any two payment bodies (any method, any token) give the same returned
  record and the same database.
\<close>

theorem pay_order_ignores_body:
  "pay_order e db order_id b1 = pay_order e db order_id b2"
  by (simp add: pay_order_def)





text \<open>
  C3. For an order id that resolves to a stored order, \<^verbatim>\<open>pay_order\<close> stores and returns
  the payment reference \<^verbatim>\<open>PMT-\<close>, the last six characters of the order id in upper case
  (the same six as those of the identifier string of the record), a hyphen, and the
  decimal digits of the whole seconds of the first clock reading; when that reading is
  not before the epoch, the reference matches \<^verbatim>\<open>PMT-<6 chars>-<digits>\<close>.
\<close>

theorem pay_order_reference:
  assumes "ObjectId order_id = Some k" and "find_one (order_coll d) k = Some doc"
  shows "\<exists>r d' stored.
      pay_order e (Some d) order_id body = (Inr r, Some d')
    \<and> find_one (order_coll d') k = Some stored
    \<and> payment_reference (payload stored) =
        Some (''PMT-'' @ upper (last6 order_id) @ ''-'' @ str_int (int_timestamp (utcnow e 0)))
    \<and> payment_reference (payload r) = payment_reference (payload stored)
    \<and> length (upper (last6 order_id)) = 6
    \<and> upper (last6 order_id) = upper (last6 (ident r))
    \<and> (0 \<le> utcnow e 0 \<longrightarrow>
         matches_payment_pattern
           (''PMT-'' @ upper (last6 order_id) @ ''-'' @ str_int (int_timestamp (utcnow e 0))))"
proof -
  from pay_order_stored [OF assms, of e body] obtain r d' stored where
    p: "pay_order e (Some d) order_id body = (Inr r, Some d')"
    and f: "find_one (order_coll d') k = Some stored"
    and r: "r = with_str_id stored"
    and s: "stored = set_paid (payment_ref order_id (utcnow e 0)) (utcnow e 1) doc"
    by blast
  from assms(2) have k: "oid_bytes (ident doc) = k" by (rule find_one_ident)
  then have k12: "length k = 12" using length_oid_bytes [of "ident doc"] by simp
  have len: "length order_id = 24" using assms(1) by (rule ObjectId_length)
  have 1: "payment_reference (payload stored) =
      Some (''PMT-'' @ upper (last6 order_id) @ ''-'' @ str_int (int_timestamp (utcnow e 0)))"
    by (simp add: s set_paid_def payment_ref_def)
  have 2: "payment_reference (payload r) = payment_reference (payload stored)"
    by (simp add: r with_str_id_def)
  have 3: "length (upper (last6 order_id)) = 6"
    using len by (rule length_upper_last6)
  have "ident r = str_oid k"
    by (simp add: r s with_str_id_def set_paid_def k)
  then have 4: "upper (last6 order_id) = upper (last6 (ident r))"
    using last6_str_oid [OF assms(1) k12] by simp
  have 5: "0 \<le> utcnow e 0 \<longrightarrow>
      matches_payment_pattern
        (''PMT-'' @ upper (last6 order_id) @ ''-'' @ str_int (int_timestamp (utcnow e 0)))"
    using payment_ref_pattern [OF len, of "utcnow e 0"] by (simp add: payment_ref_def)
  from p f 1 2 3 4 5 show ?thesis by blast
qed

theorem pay_order_reference_witness:
  "ObjectId ''64b7f3a2c1d4e5f6a7b8c9e0'' = Some (oid_bytes (ident jane_order))
   \<and> find_one (order_coll order_db) (oid_bytes (ident jane_order)) = Some jane_order
   \<and> 0 \<le> utcnow pay_env 0
   \<and> (\<exists>r d' stored.
        pay_order pay_env (Some order_db) ''64b7f3a2c1d4e5f6a7b8c9e0'' card_body = (Inr r, Some d')
      \<and> find_one (order_coll d') (oid_bytes (ident jane_order)) = Some stored
      \<and> payment_reference (payload stored) = Some ''PMT-B8C9E0-1730000200''
      \<and> payment_reference (payload r) = Some ''PMT-B8C9E0-1730000200''
      \<and> matches_payment_pattern ''PMT-B8C9E0-1730000200'')"
proof -
  have a: "find_one (order_coll order_db) (oid_bytes (ident jane_order)) = Some jane_order"
    by (simp add: order_db_def find_one_Cons)
  have b: "0 \<le> utcnow pay_env 0"
    by (simp add: pay_env_def)
  have c: "''PMT-'' @ upper (last6 ''64b7f3a2c1d4e5f6a7b8c9e0'') @ ''-''
             @ str_int (int_timestamp (utcnow pay_env 0)) = ''PMT-B8C9E0-1730000200''"
    using payment_ref_jane by (simp only: payment_ref_def)
  from pay_order_reference [OF ObjectId_jane_order a, of pay_env card_body]
  have "\<exists>r d' stored.
        pay_order pay_env (Some order_db) ''64b7f3a2c1d4e5f6a7b8c9e0'' card_body = (Inr r, Some d')
      \<and> find_one (order_coll d') (oid_bytes (ident jane_order)) = Some stored
      \<and> payment_reference (payload stored) = Some ''PMT-B8C9E0-1730000200''
      \<and> payment_reference (payload r) = Some ''PMT-B8C9E0-1730000200''
      \<and> matches_payment_pattern ''PMT-B8C9E0-1730000200''"
    unfolding c using b by metis
  with ObjectId_jane_order a b show ?thesis by blast
qed

text \<open>
  C4. For a stored order with status \<^verbatim>\<open>created\<close>, \<^verbatim>\<open>pay_order\<close> succeeds: the stored order
  then has status \<^verbatim>\<open>paid\<close>, a non-empty payment reference and, as \<^verbatim>\<open>updated_at\<close>, the
  second clock reading in the store's whole milliseconds, and the returned record is
  that stored order.
\<close>

theorem pay_order_created:
  assumes "ObjectId order_id = Some k" and "find_one (order_coll d) k = Some doc"
    and "status (payload doc) = ''created''"
  shows "\<exists>r d' stored ref.
      pay_order e (Some d) order_id body = (Inr r, Some d')
    \<and> find_one (order_coll d') k = Some stored
    \<and> r = with_str_id stored
    \<and> status (payload stored) = ''paid''
    \<and> payment_reference (payload stored) = Some ref \<and> ref \<noteq> []
    \<and> updated_at stored = bson_datetime (utcnow e 1)
    \<and> status (payload r) = ''paid'' \<and> payment_reference (payload r) = Some ref
    \<and> updated_at r = bson_datetime (utcnow e 1)"
proof -
  from pay_order_stored [OF assms(1,2), of e body] obtain r d' stored where
    p: "pay_order e (Some d) order_id body = (Inr r, Some d')"
    and f: "find_one (order_coll d') k = Some stored"
    and r: "r = with_str_id stored"
    and s: "stored = set_paid (payment_ref order_id (utcnow e 0)) (utcnow e 1) doc"
    by blast
  have "status (payload stored) = ''paid''"
    and "payment_reference (payload stored) = Some (payment_ref order_id (utcnow e 0))"
    and "updated_at stored = bson_datetime (utcnow e 1)"
    by (simp_all add: s set_paid_def)
  moreover have "payload r = payload stored" and "updated_at r = updated_at stored"
    by (simp_all add: r with_str_id_def)
  ultimately show ?thesis
    using p f r payment_ref_nonempty [of order_id "utcnow e 0"] by metis
qed

theorem pay_order_created_witness:
  "ObjectId ''64b7f3a2c1d4e5f6a7b8c9e0'' = Some (oid_bytes (ident jane_order))
   \<and> find_one (order_coll order_db) (oid_bytes (ident jane_order)) = Some jane_order
   \<and> status (payload jane_order) = ''created''
   \<and> (\<exists>r d' stored ref.
        pay_order pay_env (Some order_db) ''64b7f3a2c1d4e5f6a7b8c9e0'' card_body = (Inr r, Some d')
      \<and> find_one (order_coll d') (oid_bytes (ident jane_order)) = Some stored
      \<and> r = with_str_id stored
      \<and> status (payload stored) = ''paid''
      \<and> payment_reference (payload stored) = Some ref \<and> ref \<noteq> []
      \<and> updated_at stored = 1730000200987000
      \<and> status (payload r) = ''paid'' \<and> payment_reference (payload r) = Some ref
      \<and> updated_at r = 1730000200987000)"
proof -
  have a: "find_one (order_coll order_db) (oid_bytes (ident jane_order)) = Some jane_order"
    by (simp add: order_db_def find_one_Cons)
  have b: "status (payload jane_order) = ''created''"
    by (simp add: jane_order_def)
  have c: "bson_datetime (utcnow pay_env 1) = 1730000200987000"
    by (simp add: pay_env_def bson_datetime_def)
  from ObjectId_jane_order a b pay_order_created [OF ObjectId_jane_order a b, of pay_env card_body]
  show ?thesis unfolding c by (intro conjI)
qed

text \<open>
  C5. \<^verbatim>\<open>pay_order\<close> does not look at the status: for any stored order a first call
  succeeds and leaves it \<^verbatim>\<open>paid\<close>, and a second call on the result succeeds too and
  replaces the stored payment reference and \<^verbatim>\<open>updated_at\<close> by those of the second call
  (the clock reading in the store's whole milliseconds).
\<close>

theorem pay_order_twice:
  assumes "ObjectId order_id = Some k" and "find_one (order_coll d) k = Some doc"
  shows "\<exists>r1 d1 paid r2 d2 stored.
      pay_order e1 (Some d) order_id b1 = (Inr r1, Some d1)
    \<and> find_one (order_coll d1) k = Some paid
    \<and> status (payload paid) = ''paid''
    \<and> payment_reference (payload paid) = Some (payment_ref order_id (utcnow e1 0))
    \<and> updated_at paid = bson_datetime (utcnow e1 1)
    \<and> pay_order e2 (Some d1) order_id b2 = (Inr r2, Some d2)
    \<and> find_one (order_coll d2) k = Some stored
    \<and> r2 = with_str_id stored
    \<and> status (payload stored) = ''paid''
    \<and> payment_reference (payload stored) = Some (payment_ref order_id (utcnow e2 0))
    \<and> updated_at stored = bson_datetime (utcnow e2 1)"
proof -
  from pay_order_stored [OF assms, of e1 b1] obtain r1 d1 paid where
    p1: "pay_order e1 (Some d) order_id b1 = (Inr r1, Some d1)"
    and f1: "find_one (order_coll d1) k = Some paid"
    and s1: "paid = set_paid (payment_ref order_id (utcnow e1 0)) (utcnow e1 1) doc"
    by blast
  from pay_order_stored [OF assms(1) f1, of e2 b2] obtain r2 d2 stored where
    p2: "pay_order e2 (Some d1) order_id b2 = (Inr r2, Some d2)"
    and f2: "find_one (order_coll d2) k = Some stored"
    and r2: "r2 = with_str_id stored"
    and s2: "stored = set_paid (payment_ref order_id (utcnow e2 0)) (utcnow e2 1) paid"
    by blast
  have "status (payload paid) = ''paid''"
    and "payment_reference (payload paid) = Some (payment_ref order_id (utcnow e1 0))"
    and "updated_at paid = bson_datetime (utcnow e1 1)"
    by (simp_all add: s1 set_paid_def)
  moreover have "status (payload stored) = ''paid''"
    and "payment_reference (payload stored) = Some (payment_ref order_id (utcnow e2 0))"
    and "updated_at stored = bson_datetime (utcnow e2 1)"
    by (simp_all add: s2 set_paid_def)
  ultimately show ?thesis using p1 f1 p2 f2 r2 by blast
qed

theorem pay_order_twice_witness:
  "ObjectId ''64b7f3a2c1d4e5f6a7b8c9e0'' = Some (oid_bytes (ident jane_order))
   \<and> find_one (order_coll order_db) (oid_bytes (ident jane_order)) = Some jane_order
   \<and> (\<exists>r1 d1 paid r2 d2 stored.
        pay_order jane_env (Some order_db) ''64b7f3a2c1d4e5f6a7b8c9e0'' card_body = (Inr r1, Some d1)
      \<and> find_one (order_coll d1) (oid_bytes (ident jane_order)) = Some paid
      \<and> status (payload paid) = ''paid''
      \<and> payment_reference (payload paid)
          = Some (payment_ref ''64b7f3a2c1d4e5f6a7b8c9e0'' (utcnow jane_env 0))
      \<and> updated_at paid = 1730000100123000
      \<and> pay_order pay_env (Some d1) ''64b7f3a2c1d4e5f6a7b8c9e0'' card_body = (Inr r2, Some d2)
      \<and> find_one (order_coll d2) (oid_bytes (ident jane_order)) = Some stored
      \<and> r2 = with_str_id stored
      \<and> status (payload stored) = ''paid''
      \<and> payment_reference (payload stored) = Some ''PMT-B8C9E0-1730000200''
      \<and> updated_at stored = 1730000200987000)"
proof -
  have a: "find_one (order_coll order_db) (oid_bytes (ident jane_order)) = Some jane_order"
    by (simp add: order_db_def find_one_Cons)
  have c1: "bson_datetime (utcnow jane_env 1) = 1730000100123000"
    by (simp add: jane_env_def bson_datetime_def)
  have c2: "bson_datetime (utcnow pay_env 1) = 1730000200987000"
    by (simp add: pay_env_def bson_datetime_def)
  from ObjectId_jane_order a
    pay_order_twice [OF ObjectId_jane_order a, of jane_env card_body pay_env card_body]
  show ?thesis unfolding payment_ref_jane c1 c2 by (intro conjI)
qed

text \<open>
  C8. When the order id resolves to a stored order, \<^verbatim>\<open>pay_order\<close> replaces that one
  document by one that differs from it at most in \<^verbatim>\<open>status\<close>, \<^verbatim>\<open>payment_reference\<close> and
  \<^verbatim>\<open>updated_at\<close>; the orders before and after it, the plans and the rest of the database
  are as they were. When \<^verbatim>\<open>pay_order\<close> raises, the database is unchanged. No request of
  any kind deletes an order: each stored order keeps its place, equal to what it was but
  for those three fields.
\<close>

theorem pay_order_frame:
  "(\<forall>k doc. ObjectId order_id = Some k \<and> find_one (order_coll d) k = Some doc \<longrightarrow>
      (\<exists>pre post doc'.
          order_coll d = pre @ doc # post \<and> find_one pre k = None
        \<and> pay_order e (Some d) order_id body
            = (Inr (with_str_id doc'), Some (d\<lparr>order_coll := pre @ doc' # post\<rparr>))
        \<and> same_but_payment doc doc'))
   \<and> (\<forall>err db'. pay_order e (Some d) order_id body = (Inl err, db') \<longrightarrow> db' = Some d)
   \<and> (\<forall>d'. step d d' \<longrightarrow>
        length (order_coll d) \<le> length (order_coll d')
      \<and> (\<forall>i<length (order_coll d).
            same_but_payment (order_coll d ! i) (order_coll d' ! i)))"
proof (intro conjI allI impI)
  fix k doc
  assume h: "ObjectId order_id = Some k \<and> find_one (order_coll d) k = Some doc"
  let ?f = "set_paid (payment_ref order_id (utcnow e 0)) (utcnow e 1)"
  from h have o: "ObjectId order_id = Some k" and fo: "find_one (order_coll d) k = Some doc"
    by simp_all
  from update_one_split [OF fo, of ?f] obtain pre post where
    s: "order_coll d = pre @ doc # post" and n: "find_one pre k = None"
    and u: "update_one (order_coll d) k ?f = pre @ ?f doc # post"
    by blast
  have "pay_order e (Some d) order_id body
      = (Inr (with_str_id (?f doc)), Some (d\<lparr>order_coll := pre @ ?f doc # post\<rparr>))"
    unfolding pay_order_found [OF o fo] u ..
  moreover have "same_but_payment doc (?f doc)"
    by (rule same_but_payment_set_paid)
  ultimately show "\<exists>pre post doc'.
          order_coll d = pre @ doc # post \<and> find_one pre k = None
        \<and> pay_order e (Some d) order_id body
            = (Inr (with_str_id doc'), Some (d\<lparr>order_coll := pre @ doc' # post\<rparr>))
        \<and> same_but_payment doc doc'"
    using s n by blast
next
  fix err db'
  assume "pay_order e (Some d) order_id body = (Inl err, db')"
  then show "db' = Some d" by (rule pay_order_failed)
next
  fix d'
  assume "step d d'"
  from step_orders [OF this] show "length (order_coll d) \<le> length (order_coll d')"
    by blast
next
  fix d' i
  assume st: "step d d'" and i: "i < length (order_coll d)"
  from step_orders [OF st] i
  have "order_coll d' ! i = order_coll d ! i
           \<or> (\<exists>ref t. order_coll d' ! i = set_paid ref t (order_coll d ! i))"
    by blast
  then show "same_but_payment (order_coll d ! i) (order_coll d' ! i)"
    by (auto simp: same_but_payment_refl same_but_payment_set_paid)
qed

theorem pay_order_frame_witness:
  "ObjectId ''64b7f3a2c1d4e5f6a7b8c9e0'' = Some (oid_bytes (ident jane_order))
   \<and> find_one (order_coll order_db) (oid_bytes (ident jane_order)) = Some jane_order
   \<and> (\<exists>pre post doc'.
          order_coll order_db = pre @ jane_order # post \<and> find_one pre (oid_bytes (ident jane_order)) = None
        \<and> pay_order pay_env (Some order_db) ''64b7f3a2c1d4e5f6a7b8c9e0'' card_body
            = (Inr (with_str_id doc'), Some (order_db\<lparr>order_coll := pre @ doc' # post\<rparr>))
        \<and> same_but_payment jane_order doc')
   \<and> pay_order pay_env (Some plan_db) ''64b7f3a2c1d4e5f6a7b8c9e0'' card_body
        = (Inl (HTTPException 404 ''Order not found''), Some plan_db)
   \<and> step order_db paid_db
   \<and> length (order_coll order_db) \<le> length (order_coll paid_db)
   \<and> same_but_payment (order_coll order_db ! 0) (order_coll paid_db ! 0)"
proof -
  have a: "find_one (order_coll order_db) (oid_bytes (ident jane_order)) = Some jane_order"
    by (simp add: order_db_def find_one_Cons)
  have b: "pay_order pay_env (Some plan_db) ''64b7f3a2c1d4e5f6a7b8c9e0'' card_body
        = (Inl (HTTPException 404 ''Order not found''), Some plan_db)"
    by (simp add: pay_order_def oid_Some [OF ObjectId_jane_order] plan_db_def find_one_Nil)
  have c: "(0::nat) < length (order_coll order_db)"
    by (simp add: order_db_def)
  note t = pay_order_frame [of "''64b7f3a2c1d4e5f6a7b8c9e0''" order_db pay_env card_body]
  from t ObjectId_jane_order a have 1: "\<exists>pre post doc'.
          order_coll order_db = pre @ jane_order # post \<and> find_one pre (oid_bytes (ident jane_order)) = None
        \<and> pay_order pay_env (Some order_db) ''64b7f3a2c1d4e5f6a7b8c9e0'' card_body
            = (Inr (with_str_id doc'), Some (order_db\<lparr>order_coll := pre @ doc' # post\<rparr>))
        \<and> same_but_payment jane_order doc'"
    by blast
  from t step_order_db c
  have 2: "length (order_coll order_db) \<le> length (order_coll paid_db)"
    and 3: "same_but_payment (order_coll order_db ! 0) (order_coll paid_db ! 0)"
    by blast+
  from ObjectId_jane_order a 1 b step_order_db 2 3 show ?thesis by (intro conjI)
qed

text \<open>
  C9. In every state reached from a database without orders by any sequence of requests,
  each stored order has status \<^verbatim>\<open>created\<close> or \<^verbatim>\<open>paid\<close>. A further request leaves the
  status of each stored order as it is or takes it from \<^verbatim>\<open>created\<close> to \<^verbatim>\<open>paid\<close>, and an
  order it adds has status \<^verbatim>\<open>created\<close>; so \<^verbatim>\<open>failed\<close> and \<^verbatim>\<open>cancelled\<close> never appear.
\<close>

theorem status_created_or_paid:
  assumes "reachable d"
  shows "list_all status_ok (order_coll d)
     \<and> list_all (\<lambda>doc. status (payload doc) \<noteq> ''failed''
                       \<and> status (payload doc) \<noteq> ''cancelled'') (order_coll d)
     \<and> (\<forall>d'. step d d' \<longrightarrow>
          (\<forall>i<length (order_coll d').
             if i < length (order_coll d)
             then status (payload (order_coll d' ! i)) = status (payload (order_coll d ! i))
                  \<or> (status (payload (order_coll d ! i)) = ''created''
                      \<and> status (payload (order_coll d' ! i)) = ''paid'')
             else status (payload (order_coll d' ! i)) = ''created''))"
proof (intro conjI allI impI)
  show ok: "list_all status_ok (order_coll d)"
    using assms by (rule reachable_status_ok)
  then show "list_all (\<lambda>doc. status (payload doc) \<noteq> ''failed''
                       \<and> status (payload doc) \<noteq> ''cancelled'') (order_coll d)"
    by (auto simp: list_all_iff status_ok_def)
  fix d' i
  assume st: "step d d'" and i: "i < length (order_coll d')"
  show "if i < length (order_coll d)
        then status (payload (order_coll d' ! i)) = status (payload (order_coll d ! i))
             \<or> (status (payload (order_coll d ! i)) = ''created''
                 \<and> status (payload (order_coll d' ! i)) = ''paid'')
        else status (payload (order_coll d' ! i)) = ''created''"
  proof (cases "i < length (order_coll d)")
    case True
    from ok True have "status_ok (order_coll d ! i)"
      by (simp add: list_all_length)
    moreover from step_orders [OF st] True
    have "order_coll d' ! i = order_coll d ! i
           \<or> (\<exists>ref t. order_coll d' ! i = set_paid ref t (order_coll d ! i))"
      by blast
    ultimately show ?thesis
      using True by (auto simp: status_ok_def status_set_paid)
  next
    case False
    with step_orders [OF st] i show ?thesis by simp
  qed
qed

theorem status_created_or_paid_witness:
  "reachable order_db
   \<and> list_all status_ok (order_coll order_db)
   \<and> step order_db paid_db
   \<and> status (payload (order_coll order_db ! 0)) = ''created''
   \<and> status (payload (order_coll paid_db ! 0)) = ''paid''
   \<and> reachable paid_db
   \<and> list_all status_ok (order_coll paid_db)"
proof -
  have p: "reachable paid_db"
    using reachable_order_db step_order_db by (rule reachable_step)
  have c: "status (payload (order_coll order_db ! 0)) = ''created''"
    by (simp add: order_db_def jane_order_def)
  have q: "status (payload (order_coll paid_db ! 0)) = ''paid''"
    by (simp add: paid_db_def paid_order_def status_set_paid)
  from status_created_or_paid [OF reachable_order_db] status_created_or_paid [OF p]
  have "list_all status_ok (order_coll order_db)" and "list_all status_ok (order_coll paid_db)"
    by blast+
  with reachable_order_db step_order_db c q p show ?thesis by (intro conjI)
qed

text \<open>
  C2. \<^verbatim>\<open>ensure_default_plans\<close> tests the database handle for truth before it reads the
  plan collection. Where the handle refuses that test, as the driver's handle does with
  \<^verbatim>\<open>NotImplementedError\<close>, \<^verbatim>\<open>list_plans\<close> raises that error on every database, the empty
  one included: it returns no plan and inserts none, however often it is called, so the
  plan collection of an empty store stays empty and never holds the three defaults.
\<close>

theorem list_plans_raises_on_handle:
  assumes "db_truth e = Inl err"
  shows "list_plans e (Some d) = (Inl err, Some d)
     \<and> list_plans_calls (replicate n e) (Some d) = Some d
     \<and> (\<nexists>ps. list_plans e (Some d) = (Inr ps, Some d))"
proof -
  have 1: "list_plans e (Some d) = (Inl err, Some d)"
    using assms by (rule list_plans_refused)
  have "\<forall>e' \<in> set (replicate n e). \<exists>err. db_truth e' = Inl err"
    using assms by simp
  then have 2: "list_plans_calls (replicate n e) (Some d) = Some d"
    by (rule list_plans_calls_refused)
  have 3: "\<nexists>ps. list_plans e (Some d) = (Inr ps, Some d)"
    by (simp add: 1)
  from 1 2 3 show ?thesis by (intro conjI)
qed

theorem list_plans_raises_on_handle_witness:
  "db_truth refusing_env = Inl NotImplementedError
   \<and> plan_coll empty_db = []
   \<and> list_plans refusing_env (Some empty_db) = (Inl NotImplementedError, Some empty_db)
   \<and> list_plans_calls [refusing_env, refusing_env, refusing_env] (Some empty_db)
       = Some empty_db
   \<and> length (plan_coll empty_db) \<noteq> 3"
proof -
  have a: "db_truth refusing_env = Inl NotImplementedError"
    by (simp add: refusing_env_def)
  have b: "plan_coll empty_db = []"
    by (simp add: empty_db_def)
  have r: "replicate 3 refusing_env = [refusing_env, refusing_env, refusing_env]"
    by (simp add: numeral_3_eq_3)
  from list_plans_raises_on_handle [OF a, of empty_db 3]
  have 1: "list_plans refusing_env (Some empty_db) = (Inl NotImplementedError, Some empty_db)"
    and 2: "list_plans_calls [refusing_env, refusing_env, refusing_env] (Some empty_db)
       = Some empty_db"
    unfolding r by simp_all
  have 3: "length (plan_coll empty_db) \<noteq> 3"
    by (simp add: b)
  from a b 1 2 3 show ?thesis by (intro conjI)
qed

text \<open>
  C1. When \<^verbatim>\<open>plan_id\<close> resolves to a stored plan and the identifier generated for the
  new document is not taken, \<^verbatim>\<open>create_order\<close> appends one order to the collection and
  returns it: its \<^verbatim>\<open>plan_name\<close> is the plan's name, its \<^verbatim>\<open>plan_price\<close> and \<^verbatim>\<open>total\<close> are
  the plan's price, its status is \<^verbatim>\<open>created\<close>, and the customer fields are those of the
  request. Whatever the plan collection holds afterwards, \<^verbatim>\<open>get_order\<close> returns that same
  order and \<^verbatim>\<open>pay_order\<close> returns it with the same three snapshot fields: they are never
  read from the plan again.
\<close>

theorem create_order_snapshot:
  assumes "ObjectId (plan_id body) = Some k" and "find_one (plan_coll d) k = Some p"
    and "find_one (order_coll d) (oid_bytes (new_oid e 0)) = None"
  shows "\<exists>stored.
       create_order e (Some d) body
         = (Inr (with_str_id stored), Some (d\<lparr>order_coll := order_coll d @ [stored]\<rparr>))
     \<and> find_one (order_coll d @ [stored]) (oid_bytes (new_oid e 0)) = Some stored
     \<and> plan_name (payload stored) = name (payload p)
     \<and> plan_price (payload stored) = price (payload p)
     \<and> total (payload stored) = price (payload p)
     \<and> status (payload stored) = ''created''
     \<and> payment_reference (payload stored) = None
     \<and> plan_id (payload stored) = str_oid k
     \<and> CreateOrderBody.truncate (payload stored) = body\<lparr>plan_id := str_oid k\<rparr>
     \<and> (\<forall>ps. get_order (Some \<lparr>plan_coll = ps, order_coll = order_coll d @ [stored]\<rparr>)
                 (str_oid (oid_bytes (new_oid e 0))) = Inr (with_str_id stored))
     \<and> (\<forall>ps e' b. \<exists>r d'.
            pay_order e' (Some \<lparr>plan_coll = ps, order_coll = order_coll d @ [stored]\<rparr>)
                 (str_oid (oid_bytes (new_oid e 0))) b = (Inr r, Some d')
          \<and> plan_coll d' = ps
          \<and> plan_name (payload r) = name (payload p)
          \<and> plan_price (payload r) = price (payload p)
          \<and> total (payload r) = price (payload p))"
proof -
  define stored where "stored =
      \<lparr>ident = new_oid e 0,
       payload =
         \<lparr>plan_id = str_oid (oid_bytes (ident p)), first_name = first_name body,
          last_name = last_name body, email = email body, phone = phone body,
          address_line1 = address_line1 body, address_line2 = address_line2 body,
          city = city body, state = state body, postal_code = postal_code body,
          country = country body, notes_text = notes_text body,
          plan_name = name (payload p), plan_price = price (payload p),
          status = ''created'', payment_reference = None, total = price (payload p)\<rparr>,
       created_at = bson_datetime (utcnow e 0), updated_at = bson_datetime (utcnow e 1)\<rparr>"
  have k: "oid_bytes (ident p) = k" using assms(2) by (rule find_one_ident)
  have c: "create_order e (Some d) body
         = (Inr (with_str_id stored), Some (d\<lparr>order_coll := order_coll d @ [stored]\<rparr>))"
    using assms stored_def by (rule create_order_found)
  have f: "find_one (order_coll d @ [stored]) (oid_bytes (new_oid e 0)) = Some stored"
    using assms(3) by (simp add: find_one_append find_one_Cons stored_def)
  have 1: "plan_name (payload stored) = name (payload p)"
    and 2: "plan_price (payload stored) = price (payload p)"
    and 3: "total (payload stored) = price (payload p)"
    and 4: "status (payload stored) = ''created''"
    and 5: "payment_reference (payload stored) = None"
    and 6: "plan_id (payload stored) = str_oid k"
    by (simp_all add: stored_def k)
  have 7: "CreateOrderBody.truncate (payload stored) = body\<lparr>plan_id := str_oid k\<rparr>"
    by (simp add: stored_def k CreateOrderBody.truncate_def)
  have g: "get_order (Some \<lparr>plan_coll = ps, order_coll = order_coll d @ [stored]\<rparr>)
                 (str_oid (oid_bytes (new_oid e 0))) = Inr (with_str_id stored)" for ps
    using f by (simp add: get_order_found [OF ObjectId_str_oid])
  have h: "\<exists>r d'.
            pay_order e' (Some \<lparr>plan_coll = ps, order_coll = order_coll d @ [stored]\<rparr>)
                 (str_oid (oid_bytes (new_oid e 0))) b = (Inr r, Some d')
          \<and> plan_coll d' = ps
          \<and> plan_name (payload r) = name (payload p)
          \<and> plan_price (payload r) = price (payload p)
          \<and> total (payload r) = price (payload p)" for ps e' b
  proof -
    have "find_one (order_coll \<lparr>plan_coll = ps, order_coll = order_coll d @ [stored]\<rparr>)
        (oid_bytes (new_oid e 0)) = Some stored"
      using f by simp
    from pay_order_found [OF ObjectId_str_oid this, of e' b] show ?thesis
      by (simp add: with_str_id_def set_paid_def 1 2 3)
  qed
  from c f 1 2 3 4 5 6 7 g h show ?thesis by blast
qed

theorem create_order_snapshot_witness:
  "ObjectId (plan_id jane_body) = Some (oid_bytes (ident essential_plan))
   \<and> find_one (plan_coll plan_db) (oid_bytes (ident essential_plan)) = Some essential_plan
   \<and> find_one (order_coll plan_db) (oid_bytes (new_oid jane_env 0)) = None
   \<and> create_order jane_env (Some plan_db) jane_body = (Inr (with_str_id jane_order), Some order_db)
   \<and> plan_name (payload jane_order) = ''Essential Will''
   \<and> plan_price (payload jane_order) = 79
   \<and> total (payload jane_order) = 79
   \<and> status (payload jane_order) = ''created''
   \<and> (\<exists>stored.
         create_order jane_env (Some plan_db) jane_body
           = (Inr (with_str_id stored), Some (plan_db\<lparr>order_coll := order_coll plan_db @ [stored]\<rparr>))
       \<and> plan_name (payload stored) = name (payload essential_plan)
       \<and> total (payload stored) = price (payload essential_plan)
       \<and> get_order (Some \<lparr>plan_coll = [], order_coll = order_coll plan_db @ [stored]\<rparr>)
             (str_oid (oid_bytes (new_oid jane_env 0))) = Inr (with_str_id stored))"
proof -
  have a: "find_one (plan_coll plan_db) (oid_bytes (ident essential_plan)) = Some essential_plan"
    by (simp add: plan_db_def find_one_Cons)
  have b: "find_one (order_coll plan_db) (oid_bytes (new_oid jane_env 0)) = None"
    by (simp add: plan_db_def find_one_Nil)
  have c: "plan_name (payload jane_order) = ''Essential Will''"
    "plan_price (payload jane_order) = 79" "total (payload jane_order) = 79"
    "status (payload jane_order) = ''created''"
    by (simp_all add: jane_order_def)
  from create_order_snapshot [OF ObjectId_jane_plan a b]
  have d: "\<exists>stored.
         create_order jane_env (Some plan_db) jane_body
           = (Inr (with_str_id stored), Some (plan_db\<lparr>order_coll := order_coll plan_db @ [stored]\<rparr>))
       \<and> plan_name (payload stored) = name (payload essential_plan)
       \<and> total (payload stored) = price (payload essential_plan)
       \<and> get_order (Some \<lparr>plan_coll = [], order_coll = order_coll plan_db @ [stored]\<rparr>)
             (str_oid (oid_bytes (new_oid jane_env 0))) = Inr (with_str_id stored)"
    by blast
  from ObjectId_jane_plan a b create_order_jane c d show ?thesis by (intro conjI)
qed

end
